theory Spec2Isabelle
  imports Main
begin

section \<open>The reply handler of the agent cycle (manta/core/reply_handler.py)\<close>

text \<open>
  The module holds one class, \<open>ReplyHandler\<close>, with the operations
  \<open>_ask_permission\<close>, \<open>process_response\<close>, \<open>execute_tool\<close>,
  \<open>get_next_response\<close> and \<open>handle_tool_denial\<close>. Its collaborators
  \<open>ConversationHistory\<close>, \<open>ToolManager\<close> and \<open>LLMClient\<close> are imported from
  other modules. Python strings are modelled as \<open>string\<close>, one \<open>char\<close> per code
  point below 256; exceptions are values of a sum type.
\<close>

subsection \<open>Data\<close>

datatype py_exception = EOFError | Raised string

datatype ResponseType = TOOL_CALL | FINAL_RESPONSE

type_synonym params = "string \<rightharpoonup> string"

record ProcessedResponse =
  type :: ResponseType
  content :: string
  tool_name :: "string option"
  tool_params :: "params option"

text \<open>
  Modelled from the spec: the class \<open>ToolResult\<close> (manta.tools), of which the source
  reads the attributes \<open>message\<close> and \<open>data\<close>. The spec gives
  \<open>ToolResult: {message: optional text, data: optional text}\<close>.
\<close>

record ToolResult =
  message :: "string option"
  data :: "string option"

text \<open>
  Modelled from the spec: the class \<open>ConversationHistory\<close> (manta.session.history),
  of which the source calls \<open>add_message(role, content)\<close> and \<open>get_context()\<close>.
  The spec gives an append-only ordered log of role-tagged messages whose produced
  context is exactly the sequence of appended messages in insertion order. The role is
  kept as the string the source passes.
\<close>

record Message =
  msg_role :: string
  msg_content :: string

type_synonym ConversationHistory = "Message list"

definition add_message :: "string \<Rightarrow> string \<Rightarrow> ConversationHistory \<Rightarrow> ConversationHistory" where
  "add_message r c h = h @ [\<lparr>msg_role = r, msg_content = c\<rparr>]"

definition get_context :: "ConversationHistory \<Rightarrow> Message list" where
  "get_context h = h"

text \<open>
  The classes \<open>ToolManager\<close> and \<open>LLMClient\<close> are parameters of the handler: any
  parser, any executor and any backend, each of which may raise. The executor runs
  tool handlers (shell commands, file access), so it reads and changes a world \<open>'w\<close>
  that the handler itself never touches; the manager is built with no reference to the
  conversation, so it cannot change it.
\<close>

record 'w ToolManager =
  parse_tool_use :: "string \<Rightarrow> py_exception + (string option \<times> params option)"
  manager_execute_tool :: "string \<Rightarrow> params \<Rightarrow> 'w \<Rightarrow> (py_exception + ToolResult) \<times> 'w"

record LLMClient =
  chat :: "Message list \<Rightarrow> py_exception + string"

record 'w ReplyHandler =
  api_handler :: LLMClient
  conversations :: ConversationHistory
  tool_manager :: "'w ToolManager"
  world :: 'w

subsection \<open>Python strings\<close>

text \<open>
  \<open>str.strip()\<close> removes leading and trailing whitespace; below code point 256 the
  whitespace characters of Python are 9 to 13, 28 to 32, 133 and 160. \<open>str.lower()\<close>
  maps A to Z and the capital letters 192 to 222 (but the multiplication sign 215) to the
  letter 32 places higher.
\<close>

definition py_isspace :: "char \<Rightarrow> bool" where
  "py_isspace c = (of_char c \<in> set [9, 10, 11, 12, 13, 28, 29, 30, 31, 32, 133, 160 :: nat])"

definition lower_char :: "char \<Rightarrow> char" where
  "lower_char c =
     (let n = (of_char c :: nat) in
      if (65 \<le> n \<and> n \<le> 90) \<or> (192 \<le> n \<and> n \<le> 222 \<and> n \<noteq> 215)
      then char_of (n + 32) else c)"

definition strip :: "string \<Rightarrow> string" where
  "strip s = rev (dropWhile py_isspace (rev (dropWhile py_isspace s)))"

definition lower :: "string \<Rightarrow> string" where
  "lower s = map lower_char s"

text \<open>
  The truth value of an \<open>Optional[str]\<close> in a condition: \<open>None\<close> and the empty string
  are false. Its text in \<open>str(...)\<close> and in an f-string: \<open>None\<close> prints as \<open>None\<close>.
\<close>

fun truthy :: "string option \<Rightarrow> bool" where
  "truthy None = False"
| "truthy (Some s) = (s \<noteq> [])"

fun py_str :: "string option \<Rightarrow> string" where
  "py_str None = ''None''"
| "py_str (Some s) = s"

subsection \<open>The permission gate\<close>

text \<open>
  \<open>_ask_permission\<close> is a \<open>while True\<close> loop around \<open>input(prompt)\<close>. The standard
  input is the function giving the line that the \<open>n\<close>-th call of \<open>input\<close> reads,
  \<open>None\<close> when the input has ended there (\<open>input\<close> then raises \<open>EOFError\<close>). The
  console state is the number of lines read so far and the list of texts written so
  far: \<open>input\<close> writes its prompt and then reads, \<open>print\<close> writes its text and a
  line feed. The loop need not end, so the function is partial: \<open>None\<close> stands for
  a gate that never returns.
\<close>

definition prompt :: "string \<Rightarrow> string" where
  "prompt tool = ''Do you want to execute the tool '' @ [CHR 0x27] @ tool @ [CHR 0x27] @ ''? (yes/no): ''"

definition reminder :: string where
  "reminder = ''Please answer 'yes' or 'no'.'' @ [CHR 0x0A]"

definition answer :: "string \<Rightarrow> string" where
  "answer line = lower (strip line)"

partial_function (option) ask_permission ::
  "string \<Rightarrow> (nat \<Rightarrow> string option) \<Rightarrow> nat \<Rightarrow> string list
     \<Rightarrow> ((py_exception + bool) \<times> nat \<times> string list) option" where
  "ask_permission tool stdin n out =
     (case stdin n of
        None \<Rightarrow> Some (Inl EOFError, n, out @ [prompt tool])
      | Some line \<Rightarrow>
          (let response = answer line in
           if response \<in> set [''yes'', ''no'']
           then Some (Inr (response = ''yes''), Suc n, out @ [prompt tool])
           else ask_permission tool stdin (Suc n) (out @ [prompt tool, reminder])))"

text \<open>
  Two readings of one line of input, used to state what the loop does: a line is
  decisive when the loop returns on it, and the \<open>n\<close>-th read is idle when it yields a
  line that is not decisive.
\<close>

definition decisive :: "string \<Rightarrow> bool" where
  "decisive line = (answer line \<in> set [''yes'', ''no''])"

definition idle :: "(nat \<Rightarrow> string option) \<Rightarrow> nat \<Rightarrow> bool" where
  "idle stdin n = (case stdin n of None \<Rightarrow> False | Some line \<Rightarrow> \<not> decisive line)"

subsection \<open>The handler's operations\<close>

definition process_response :: "'w ReplyHandler \<Rightarrow> string \<Rightarrow> (py_exception + ProcessedResponse) \<times> 'w ReplyHandler" where
  "process_response self response =
     (let self1 = self\<lparr>conversations := add_message ''assistant'' response (conversations self)\<rparr> in
      case parse_tool_use (tool_manager self1) response of
        Inl e \<Rightarrow> (Inl e, self1)
      | Inr (tool, ps) \<Rightarrow>
          if truthy tool
          then (Inr \<lparr>type = TOOL_CALL, content = response, tool_name = tool, tool_params = ps\<rparr>, self1)
          else (Inr \<lparr>type = FINAL_RESPONSE, content = response, tool_name = None, tool_params = None\<rparr>, self1))"

definition execute_tool :: "'w ReplyHandler \<Rightarrow> string \<Rightarrow> params \<Rightarrow> (py_exception + string option) \<times> 'w ReplyHandler" where
  "execute_tool self tool ps =
     (case manager_execute_tool (tool_manager self) tool ps (world self) of
        (Inl e, w) \<Rightarrow> (Inl e, self\<lparr>world := w\<rparr>)
      | (Inr result, w) \<Rightarrow>
          (let self1 = self\<lparr>world := w\<rparr>;
               self2 = (if truthy (message result)
                        then self1\<lparr>conversations := add_message ''user'' (py_str (message result)) (conversations self1)\<rparr>
                        else self1);
               self3 = (if truthy (data result)
                        then self2\<lparr>conversations := add_message ''user'' (py_str (data result)) (conversations self2)\<rparr>
                        else self2)
           in (Inr (message result), self3)))"

definition get_next_response :: "'w ReplyHandler \<Rightarrow> py_exception + string" where
  "get_next_response self = chat (api_handler self) (get_context (conversations self))"

text \<open>
  \<open>handle_tool_denial\<close> ends with a \<open>logging.debug\<close> call: a diagnostic record that
  touches no field of the handler; it is not part of the model.
\<close>

definition handle_tool_denial :: "'w ReplyHandler \<Rightarrow> string option \<Rightarrow> 'w ReplyHandler" where
  "handle_tool_denial self tool =
     (let denial_message = ''Tool execution denied: '' @ py_str tool in
      self\<lparr>conversations := add_message ''user'' denial_message (conversations self)\<rparr>)"

subsection \<open>The tool registry\<close>

text \<open>
  Modelled from the spec: the method \<open>ToolManager.execute_tool\<close> (manta.tools.manager),
  which \<open>ReplyHandler.execute_tool\<close> calls and whose code is not in the source. The spec
  gives a registry mapping each tool name to its handler; \<open>resolve(name)\<close> fails with
  \<open>UnknownToolError\<close> if the name is absent; a handler is \<open>execute(params) -> ToolResult\<close>
  and may raise a \<open>ToolError\<close> carrying a human-readable message; a resolution failure
  or a handler failure is caught and converted to a ToolResult-shaped error message.
  How an error is put into words is not given: it is the parameter \<open>describe\<close>.
\<close>

datatype ToolError = UnknownToolError string | ToolExecutionError string

type_synonym 'w handler = "params \<Rightarrow> 'w \<Rightarrow> (string + ToolResult) \<times> 'w"

type_synonym 'w registry = "string \<rightharpoonup> 'w handler"

definition resolve :: "'w registry \<Rightarrow> string \<Rightarrow> ToolError + 'w handler" where
  "resolve reg name = (case reg name of None \<Rightarrow> Inl (UnknownToolError name) | Some h \<Rightarrow> Inr h)"

definition error_result :: "string \<Rightarrow> ToolResult" where
  "error_result words = \<lparr>message = Some words, data = None\<rparr>"

definition registry_execute_tool ::
  "(ToolError \<Rightarrow> string) \<Rightarrow> 'w registry \<Rightarrow> string \<Rightarrow> params \<Rightarrow> 'w \<Rightarrow> (py_exception + ToolResult) \<times> 'w" where
  "registry_execute_tool describe reg name ps w =
     (case resolve reg name of
        Inl e \<Rightarrow> (Inr (error_result (describe e)), w)
      | Inr h \<Rightarrow>
          (case h ps w of
             (Inl words, w') \<Rightarrow> (Inr (error_result (describe (ToolExecutionError words))), w')
           | (Inr result, w') \<Rightarrow> (Inr result, w')))"

text \<open>The failure, if any, that a dispatch of \<open>name\<close> with \<open>ps\<close> meets.\<close>

definition dispatch_failure :: "'w registry \<Rightarrow> string \<Rightarrow> params \<Rightarrow> 'w \<Rightarrow> ToolError option" where
  "dispatch_failure reg name ps w =
     (case resolve reg name of
        Inl e \<Rightarrow> Some e
      | Inr h \<Rightarrow> (case fst (h ps w) of Inl words \<Rightarrow> Some (ToolExecutionError words) | Inr result \<Rightarrow> None))"

subsection \<open>Concrete handlers\<close>

text \<open>
  A handler to evaluate the operations on: its parser knows one directive and one
  block with an empty name, its world counts the executions, and its executor is given.
\<close>

definition sample_params :: params where
  "sample_params = [''path'' \<mapsto> ''x'']"

definition no_params :: params where
  "no_params = Map.empty"

definition sample_parse :: "string \<Rightarrow> py_exception + (string option \<times> params option)" where
  "sample_parse response =
     (if response = ''<read_file><path>x</path></read_file>''
      then Inr (Some ''read_file'', Some sample_params)
      else if response = ''<></>'' then Inr (Some [], Some no_params)
      else Inr (None, None))"

definition sample_handler ::
  "(string \<Rightarrow> params \<Rightarrow> nat \<Rightarrow> (py_exception + ToolResult) \<times> nat) \<Rightarrow> nat ReplyHandler" where
  "sample_handler exec =
     \<lparr>api_handler = \<lparr>chat = (\<lambda>c. Inr ''done'')\<rparr>,
      conversations = [],
      tool_manager = \<lparr>parse_tool_use = sample_parse, manager_execute_tool = exec\<rparr>,
      world = 0\<rparr>"

definition returning :: "ToolResult \<Rightarrow> string \<Rightarrow> params \<Rightarrow> nat \<Rightarrow> (py_exception + ToolResult) \<times> nat" where
  "returning result name ps w = (Inr result, Suc w)"

definition raising :: "py_exception \<Rightarrow> string \<Rightarrow> params \<Rightarrow> nat \<Rightarrow> (py_exception + ToolResult) \<times> nat" where
  "raising e name ps w = (Inl e, Suc w)"

definition empty_message_result :: ToolResult where
  "empty_message_result = \<lparr>message = Some [], data = Some ''abc''\<rparr>"

definition sample_describe :: "ToolError \<Rightarrow> string" where
  "sample_describe e =
     (case e of UnknownToolError name \<Rightarrow> ''Unknown tool: '' @ name
              | ToolExecutionError words \<Rightarrow> ''Tool failed: '' @ words)"

definition sample_registry :: "nat registry" where
  "sample_registry =
     [''read_file'' \<mapsto> (\<lambda>ps w. (Inr \<lparr>message = Some ''ok'', data = Some ''abc''\<rparr>, Suc w)),
      ''write_file'' \<mapsto> (\<lambda>ps w. (Inl ''disk full'', Suc w))]"

text \<open>
  Standard inputs: the lines of a list followed by the end of the input, and one line
  typed over and over.
\<close>

definition lines_then_end :: "string list \<Rightarrow> nat \<Rightarrow> string option" where
  "lines_then_end ls n = (if n < length ls then Some (ls ! n) else None)"

definition always_typing :: "string \<Rightarrow> nat \<Rightarrow> string option" where
  "always_typing line n = Some line"

section \<open>Properties\<close>

subsection \<open>Recording and classifying a reply\<close>

text \<open>
  C1. For every handler and every response, \<open>process_response\<close> leaves the handler as
  it was but for the conversation, which is the old one followed by one message of
  role \<open>assistant\<close> whose content is the response itself. The equation has no
  condition on the parser: the message is added before the parser runs, so it stands
  whether the parser raises, finds a tool call or finds none.
\<close>

theorem process_response_records_reply:
  "snd (process_response self response) =
     self\<lparr>conversations := conversations self @ [\<lparr>msg_role = ''assistant'', msg_content = response\<rparr>]\<rparr>"
  by (simp add: process_response_def add_message_def Let_def split: sum.split prod.split)

text \<open>
  C2. When the parser returns a tool name (a non-empty one) with a parameter mapping,
  \<open>process_response\<close> returns a \<open>TOOL_CALL\<close> with exactly that name and that mapping;
  when the parser returns no tool name, it returns a \<open>FINAL_RESPONSE\<close> whose content is
  the response verbatim, with no tool name and no parameters.
\<close>

theorem process_response_classifies:
  "(parse_tool_use (tool_manager self) response = Inr (Some name, ps) \<and> name \<noteq> [] \<longrightarrow>
      fst (process_response self response) =
        Inr \<lparr>type = TOOL_CALL, content = response, tool_name = Some name, tool_params = ps\<rparr>) \<and>
   (parse_tool_use (tool_manager self) response = Inr (None, ps) \<longrightarrow>
      fst (process_response self response) =
        Inr \<lparr>type = FINAL_RESPONSE, content = response, tool_name = None, tool_params = None\<rparr>)"
  by (simp add: process_response_def Let_def)

text \<open>The two cases on the sample handler: a directive, and plain prose.\<close>

theorem process_response_classifies_witness:
  "fst (process_response (sample_handler (returning \<lparr>message = None, data = None\<rparr>))
          ''<read_file><path>x</path></read_file>'') =
     Inr \<lparr>type = TOOL_CALL, content = ''<read_file><path>x</path></read_file>'',
          tool_name = Some ''read_file'', tool_params = Some sample_params\<rparr> \<and>
   fst (process_response (sample_handler (returning \<lparr>message = None, data = None\<rparr>)) ''All done.'') =
     Inr \<lparr>type = FINAL_RESPONSE, content = ''All done.'', tool_name = None, tool_params = None\<rparr>"
  using process_response_classifies
      [of "sample_handler (returning \<lparr>message = None, data = None\<rparr>)"
          "''<read_file><path>x</path></read_file>''" "''read_file''" "Some sample_params"]
    process_response_classifies
      [of "sample_handler (returning \<lparr>message = None, data = None\<rparr>)" "''All done.''" "''read_file''" None]
  by (simp add: sample_handler_def sample_parse_def)

text \<open>
  C8. When the parser returns the empty string as the tool name, \<open>process_response\<close>
  returns a \<open>FINAL_RESPONSE\<close> with \<open>tool_name\<close> and \<open>tool_params\<close> both \<open>None\<close>, whatever
  parameters the parser gave: the name is tested for truth, not for being \<open>None\<close>.
\<close>

theorem empty_tool_name_is_final:
  "parse_tool_use (tool_manager self) response = Inr (Some [], ps) \<Longrightarrow>
     fst (process_response self response) =
       Inr \<lparr>type = FINAL_RESPONSE, content = response, tool_name = None, tool_params = None\<rparr>"
  by (simp add: process_response_def Let_def)

theorem empty_tool_name_is_final_witness:
  "parse_tool_use (tool_manager (sample_handler (returning \<lparr>message = None, data = None\<rparr>))) ''<></>'' =
     Inr (Some [], Some no_params) \<and>
   fst (process_response (sample_handler (returning \<lparr>message = None, data = None\<rparr>)) ''<></>'') =
     Inr \<lparr>type = FINAL_RESPONSE, content = ''<></>'', tool_name = None, tool_params = None\<rparr>"
  using empty_tool_name_is_final
      [of "sample_handler (returning \<lparr>message = None, data = None\<rparr>)" "''<></>''" "Some no_params"]
  by (simp add: sample_handler_def sample_parse_def)

subsection \<open>The permission gate\<close>

lemma ask_permission_idle:
  "idle stdin n \<Longrightarrow>
   ask_permission tool stdin n out = ask_permission tool stdin (Suc n) (out @ [prompt tool, reminder])"
  by (subst ask_permission.simps) (simp add: idle_def decisive_def split: option.splits)

lemma ask_permission_decisive:
  "stdin n = Some line \<Longrightarrow> decisive line \<Longrightarrow>
   ask_permission tool stdin n out = Some (Inr (answer line = ''yes''), Suc n, out @ [prompt tool])"
  by (subst ask_permission.simps) (simp add: decisive_def)

lemma ask_permission_end:
  "stdin n = None \<Longrightarrow> ask_permission tool stdin n out = Some (Inl EOFError, n, out @ [prompt tool])"
  by (subst ask_permission.simps) simp

text \<open>Any number of idle reads in a row: the loop asks again after each.\<close>

lemma ask_permission_skip:
  "(\<forall>j<k. idle stdin (n + j)) \<Longrightarrow>
   ask_permission tool stdin n out =
   ask_permission tool stdin (n + k) (out @ concat (replicate k [prompt tool, reminder]))"
proof (induction k arbitrary: n out)
  case 0
  then show ?case by simp
next
  case (Suc k)
  have first: "idle stdin n"
    using Suc.prems by (metis add.right_neutral zero_less_Suc)
  have rest: "\<forall>j<k. idle stdin (Suc n + j)"
  proof (intro allI impI)
    fix j assume "j < k"
    then have "idle stdin (n + Suc j)" using Suc.prems by (meson Suc_less_eq)
    then show "idle stdin (Suc n + j)" by simp
  qed
  show ?case
    using Suc.IH [OF rest, of "out @ [prompt tool, reminder]"] ask_permission_idle [OF first, of tool out]
    by simp
qed

text \<open>A gate that returns has met a read that is not idle.\<close>

lemma ask_permission_returns_not_idle:
  assumes "ask_permission tool stdin n out = Some r"
  shows "\<exists>k. \<not> idle stdin (n + k)"
proof (rule ask_permission.raw_induct
    [where P = "\<lambda>tool stdin n out r. \<exists>k. \<not> idle stdin (n + k)", OF _ assms])
  fix ask tool stdin n out r
  assume IH: "\<And>tool stdin n out r. ask tool stdin n out = Some r \<Longrightarrow> \<exists>k. \<not> idle stdin (n + k)"
    and body: "(case stdin n of
        None \<Rightarrow> Some (Inl EOFError, n, out @ [prompt tool])
      | Some line \<Rightarrow>
          (let response = answer line in
           if response \<in> set [''yes'', ''no'']
           then Some (Inr (response = ''yes''), Suc n, out @ [prompt tool])
           else ask tool stdin (Suc n) (out @ [prompt tool, reminder]))) = Some r"
  show "\<exists>k. \<not> idle stdin (n + k)"
  proof (cases "idle stdin n")
    case False
    then show ?thesis by (metis add.right_neutral)
  next
    case True
    then obtain line where "stdin n = Some line" "\<not> decisive line"
      by (auto simp: idle_def split: option.splits)
    with body have "ask tool stdin (Suc n) (out @ [prompt tool, reminder]) = Some r"
      by (simp add: decisive_def)
    then obtain k where "\<not> idle stdin (Suc n + k)" using IH by blast
    then have "\<not> idle stdin (n + Suc k)" by simp
    then show ?thesis by blast
  qed
qed

lemma decisive_YES: "decisive ''  YES '' \<and> answer ''  YES '' = ''yes''"
  by code_simp

lemma not_decisive_maybe: "\<not> decisive ''maybe''"
  by code_simp

lemma not_decisive_y: "\<not> decisive ''y''"
  by code_simp

text \<open>The three ways a run of the gate can go.\<close>

lemma ask_permission_run:
  "((\<forall>j<k. idle stdin (n + j)) \<and> stdin (n + k) = Some line \<and> decisive line \<longrightarrow>
      ask_permission tool stdin n out =
        Some (Inr (answer line = ''yes''), Suc (n + k),
              out @ concat (replicate k [prompt tool, reminder]) @ [prompt tool])) \<and>
   ((\<forall>j<k. idle stdin (n + j)) \<and> stdin (n + k) = None \<longrightarrow>
      ask_permission tool stdin n out =
        Some (Inl EOFError, n + k,
              out @ concat (replicate k [prompt tool, reminder]) @ [prompt tool])) \<and>
   ((\<forall>j. idle stdin (n + j)) \<longrightarrow> ask_permission tool stdin n out = None)"
proof (intro conjI impI)
  assume a: "(\<forall>j<k. idle stdin (n + j)) \<and> stdin (n + k) = Some line \<and> decisive line"
  then have "ask_permission tool stdin n out =
      ask_permission tool stdin (n + k) (out @ concat (replicate k [prompt tool, reminder]))"
    using ask_permission_skip by blast
  then show "ask_permission tool stdin n out =
        Some (Inr (answer line = ''yes''), Suc (n + k),
              out @ concat (replicate k [prompt tool, reminder]) @ [prompt tool])"
    using a ask_permission_decisive [of stdin "n + k" line] by simp
next
  assume a: "(\<forall>j<k. idle stdin (n + j)) \<and> stdin (n + k) = None"
  then have "ask_permission tool stdin n out =
      ask_permission tool stdin (n + k) (out @ concat (replicate k [prompt tool, reminder]))"
    using ask_permission_skip by blast
  then show "ask_permission tool stdin n out =
        Some (Inl EOFError, n + k,
              out @ concat (replicate k [prompt tool, reminder]) @ [prompt tool])"
    using a ask_permission_end [of stdin "n + k"] by simp
next
  assume a: "\<forall>j. idle stdin (n + j)"
  show "ask_permission tool stdin n out = None"
  proof (cases "ask_permission tool stdin n out")
    case None
    then show ?thesis .
  next
    case (Some r)
    from ask_permission_returns_not_idle [OF this] a show ?thesis by blast
  qed
qed

text \<open>The gate returns True only when the first read that is not idle yields \<open>yes\<close>.\<close>

lemma ask_permission_True_only:
  assumes t: "ask_permission tool stdin n out = Some (Inr True, m, out')"
  shows "\<exists>k line. (\<forall>j<k. idle stdin (n + j)) \<and> stdin (n + k) = Some line \<and> answer line = ''yes''"
proof -
  define k where "k = (LEAST k. \<not> idle stdin (n + k))"
  have ex: "\<exists>k. \<not> idle stdin (n + k)"
    using ask_permission_returns_not_idle [OF t] .
  have stop: "\<not> idle stdin (n + k)"
    unfolding k_def using ex by (rule LeastI_ex)
  have before: "\<forall>j<k. idle stdin (n + j)"
    unfolding k_def using not_less_Least by blast
  show ?thesis
  proof (cases "stdin (n + k)")
    case None
    then have "ask_permission tool stdin n out =
        Some (Inl EOFError, n + k, out @ concat (replicate k [prompt tool, reminder]) @ [prompt tool])"
      using before ask_permission_run [of k stdin n line tool out] by blast
    with t show ?thesis by simp
  next
    case (Some line)
    then have d: "decisive line" using stop by (simp add: idle_def)
    then have "ask_permission tool stdin n out =
        Some (Inr (answer line = ''yes''), Suc (n + k),
              out @ concat (replicate k [prompt tool, reminder]) @ [prompt tool])"
      using before Some ask_permission_run [of k stdin n line tool out] by blast
    with t have "answer line = ''yes''" by simp
    with before Some show ?thesis by blast
  qed
qed

text \<open>
  C3. Let the gate start at the \<open>n\<close>-th read. If the next \<open>k\<close> reads are idle (each
  yields a line that does not trim and lowercase to \<open>yes\<close> or \<open>no\<close>) and the read
  after them yields a line that does, the gate returns, and it returns True exactly
  when that line trims and lowercases to \<open>yes\<close>; each of the \<open>k\<close> idle reads made it
  write the reminder and the prompt again. If instead the input ends after the \<open>k\<close>
  idle reads, \<open>EOFError\<close> is raised, and if every read is idle the gate never returns.
  So the gate returns True if and only if the first read that is not idle yields a
  line that trims and lowercases to \<open>yes\<close>.
\<close>

theorem ask_permission_first_decisive:
  "((\<forall>j<k. idle stdin (n + j)) \<and> stdin (n + k) = Some line \<and> decisive line \<longrightarrow>
      ask_permission tool stdin n out =
        Some (Inr (answer line = ''yes''), Suc (n + k),
              out @ concat (replicate k [prompt tool, reminder]) @ [prompt tool])) \<and>
   ((\<forall>j<k. idle stdin (n + j)) \<and> stdin (n + k) = None \<longrightarrow>
      ask_permission tool stdin n out =
        Some (Inl EOFError, n + k,
              out @ concat (replicate k [prompt tool, reminder]) @ [prompt tool])) \<and>
   ((\<forall>j. idle stdin (n + j)) \<longrightarrow> ask_permission tool stdin n out = None) \<and>
   ((\<exists>m out'. ask_permission tool stdin n out = Some (Inr True, m, out')) \<longleftrightarrow>
    (\<exists>i l. (\<forall>j<i. idle stdin (n + j)) \<and> stdin (n + i) = Some l \<and> answer l = ''yes''))"
proof -
  have "(\<exists>m out'. ask_permission tool stdin n out = Some (Inr True, m, out')) \<longleftrightarrow>
    (\<exists>i l. (\<forall>j<i. idle stdin (n + j)) \<and> stdin (n + i) = Some l \<and> answer l = ''yes'')"
  proof
    assume "\<exists>m out'. ask_permission tool stdin n out = Some (Inr True, m, out')"
    then show "\<exists>i l. (\<forall>j<i. idle stdin (n + j)) \<and> stdin (n + i) = Some l \<and> answer l = ''yes''"
      using ask_permission_True_only by blast
  next
    assume "\<exists>i l. (\<forall>j<i. idle stdin (n + j)) \<and> stdin (n + i) = Some l \<and> answer l = ''yes''"
    then obtain i l where h: "\<forall>j<i. idle stdin (n + j)" "stdin (n + i) = Some l" "answer l = ''yes''"
      by blast
    then have "decisive l" by (simp add: decisive_def)
    then have "ask_permission tool stdin n out =
        Some (Inr (answer l = ''yes''), Suc (n + i),
              out @ concat (replicate i [prompt tool, reminder]) @ [prompt tool])"
      using h ask_permission_run [of i stdin n l tool out] by blast
    then show "\<exists>m out'. ask_permission tool stdin n out = Some (Inr True, m, out')"
      using h by simp
  qed
  then show ?thesis
    using ask_permission_run [of k stdin n line tool out] by blast
qed

text \<open>
  Three consoles: \<open>maybe\<close>, then \<open>YES\<close> between blanks (approved after one reminder, the
  later \<open>No\<close> never read); \<open>maybe\<close> and \<open>y\<close>, then the end of the input; \<open>maybe\<close> for ever.
\<close>

theorem ask_permission_first_decisive_witness:
  "ask_permission ''read_file'' (lines_then_end [''maybe'', ''  YES '', ''No'']) 0 [] =
     Some (Inr True, 2, [prompt ''read_file'', reminder, prompt ''read_file'']) \<and>
   ask_permission ''read_file'' (lines_then_end [''maybe'', ''y'']) 0 [] =
     Some (Inl EOFError, 2,
           [prompt ''read_file'', reminder, prompt ''read_file'', reminder, prompt ''read_file'']) \<and>
   ask_permission ''read_file'' (always_typing ''maybe'') 0 [] = None"
proof -
  have i1: "\<forall>j<Suc 0. idle (lines_then_end [''maybe'', ''  YES '', ''No'']) (0 + j)"
    using not_decisive_maybe by (simp add: idle_def lines_then_end_def)
  have d1: "lines_then_end [''maybe'', ''  YES '', ''No''] (0 + Suc 0) = Some ''  YES ''"
    by (simp add: lines_then_end_def)
  have i2: "\<forall>j<Suc (Suc 0). idle (lines_then_end [''maybe'', ''y'']) (0 + j)"
    using not_decisive_maybe not_decisive_y by (simp add: idle_def lines_then_end_def less_Suc_eq)
  have e2: "lines_then_end [''maybe'', ''y''] (0 + Suc (Suc 0)) = None"
    by (simp add: lines_then_end_def)
  have i3: "\<forall>j. idle (always_typing ''maybe'') (0 + j)"
    using not_decisive_maybe by (simp add: idle_def always_typing_def)
  show ?thesis
    using ask_permission_first_decisive
        [of "Suc 0" "lines_then_end [''maybe'', ''  YES '', ''No'']" 0 "''  YES ''" "''read_file''" "[]"]
      ask_permission_first_decisive
        [of "Suc (Suc 0)" "lines_then_end [''maybe'', ''y'']" 0 "''x''" "''read_file''" "[]"]
      ask_permission_first_decisive
        [of 0 "always_typing ''maybe''" 0 "''x''" "''read_file''" "[]"]
      i1 d1 i2 e2 i3 decisive_YES
    by (simp add: numeral_2_eq_2)
qed

subsection \<open>Executing a tool\<close>

text \<open>
  C9. When the tool manager hands back a ToolResult, the value \<open>execute_tool\<close> returns
  is that result's \<open>message\<close> field as it is, \<open>None\<close> included; the \<open>data\<close> field has
  no part in it. When the tool manager raises, the exception is what the caller gets.
\<close>

theorem execute_tool_returns_message:
  "(manager_execute_tool (tool_manager self) tool ps (world self) = (Inr result, w) \<longrightarrow>
      fst (execute_tool self tool ps) = Inr (message result)) \<and>
   (manager_execute_tool (tool_manager self) tool ps (world self) = (Inl e, w) \<longrightarrow>
      fst (execute_tool self tool ps) = Inl e)"
  by (simp add: execute_tool_def Let_def)

theorem execute_tool_returns_message_witness:
  "fst (execute_tool (sample_handler (returning \<lparr>message = Some ''ok'', data = Some ''abc''\<rparr>))
          ''read_file'' sample_params) = Inr (Some ''ok'') \<and>
   fst (execute_tool (sample_handler (returning \<lparr>message = None, data = Some ''abc''\<rparr>))
          ''read_file'' sample_params) = Inr None \<and>
   fst (execute_tool (sample_handler (raising (Raised ''boom''))) ''read_file'' sample_params) =
     Inl (Raised ''boom'')"
  using execute_tool_returns_message
      [of "sample_handler (returning \<lparr>message = Some ''ok'', data = Some ''abc''\<rparr>)"
          "''read_file''" sample_params "\<lparr>message = Some ''ok'', data = Some ''abc''\<rparr>" "Suc 0"]
    execute_tool_returns_message
      [of "sample_handler (returning \<lparr>message = None, data = Some ''abc''\<rparr>)"
          "''read_file''" sample_params "\<lparr>message = None, data = Some ''abc''\<rparr>" "Suc 0"]
    execute_tool_returns_message
      [of "sample_handler (raising (Raised ''boom''))"
          "''read_file''" sample_params _ "Suc 0" "Raised ''boom''"]
  by (simp add: sample_handler_def returning_def raising_def)

text \<open>
  A ToolResult whose message is the empty text and whose data is \<open>abc\<close> has both
  fields present, and \<open>execute_tool\<close> appends one message, the data, not two: a field
  is appended when it is true in a condition, and the empty text is not.
\<close>

theorem execute_tool_empty_message_counterexample:
  "message empty_message_result \<noteq> None \<and>
   data empty_message_result \<noteq> None \<and>
   manager_execute_tool (tool_manager (sample_handler (returning empty_message_result)))
      ''read_file'' sample_params (world (sample_handler (returning empty_message_result))) =
     (Inr empty_message_result, Suc 0) \<and>
   conversations (sample_handler (returning empty_message_result)) = [] \<and>
   conversations (snd (execute_tool (sample_handler (returning empty_message_result))
      ''read_file'' sample_params)) = [\<lparr>msg_role = ''user'', msg_content = ''abc''\<rparr>]"
  by (simp add: execute_tool_def sample_handler_def returning_def add_message_def Let_def
      empty_message_result_def)

text \<open>
  C4, amended. When the tool manager hands back a ToolResult, \<open>execute_tool\<close> leaves
  the handler as it was but for the world, which is as the tool left it, and the
  conversation, which is the old one followed by the message as a \<open>user\<close> message if the
  message is a non-empty text, and after it by the data as a \<open>user\<close> message if the data
  is a non-empty text: two messages in that order when both are non-empty, the one
  that is when only one is, none when neither is.
\<close>

theorem execute_tool_appends_truthy:
  "manager_execute_tool (tool_manager self) tool ps (world self) = (Inr result, w) \<Longrightarrow>
   snd (execute_tool self tool ps) =
     self\<lparr>world := w,
          conversations := conversations self
            @ (if truthy (message result)
               then [\<lparr>msg_role = ''user'', msg_content = py_str (message result)\<rparr>] else [])
            @ (if truthy (data result)
               then [\<lparr>msg_role = ''user'', msg_content = py_str (data result)\<rparr>] else [])\<rparr>"
  by (simp add: execute_tool_def Let_def add_message_def)

theorem execute_tool_appends_truthy_witness:
  "conversations (snd (execute_tool (sample_handler (returning \<lparr>message = Some ''ok'', data = Some ''abc''\<rparr>))
      ''read_file'' sample_params)) =
     [\<lparr>msg_role = ''user'', msg_content = ''ok''\<rparr>, \<lparr>msg_role = ''user'', msg_content = ''abc''\<rparr>] \<and>
   conversations (snd (execute_tool (sample_handler (returning \<lparr>message = None, data = Some ''abc''\<rparr>))
      ''read_file'' sample_params)) = [\<lparr>msg_role = ''user'', msg_content = ''abc''\<rparr>] \<and>
   conversations (snd (execute_tool (sample_handler (returning \<lparr>message = Some ''ok'', data = None\<rparr>))
      ''read_file'' sample_params)) = [\<lparr>msg_role = ''user'', msg_content = ''ok''\<rparr>] \<and>
   conversations (snd (execute_tool (sample_handler (returning \<lparr>message = None, data = None\<rparr>))
      ''read_file'' sample_params)) = []"
  using execute_tool_appends_truthy
      [of "sample_handler (returning \<lparr>message = Some ''ok'', data = Some ''abc''\<rparr>)"
          "''read_file''" sample_params "\<lparr>message = Some ''ok'', data = Some ''abc''\<rparr>" "Suc 0"]
    execute_tool_appends_truthy
      [of "sample_handler (returning \<lparr>message = None, data = Some ''abc''\<rparr>)"
          "''read_file''" sample_params "\<lparr>message = None, data = Some ''abc''\<rparr>" "Suc 0"]
    execute_tool_appends_truthy
      [of "sample_handler (returning \<lparr>message = Some ''ok'', data = None\<rparr>)"
          "''read_file''" sample_params "\<lparr>message = Some ''ok'', data = None\<rparr>" "Suc 0"]
    execute_tool_appends_truthy
      [of "sample_handler (returning \<lparr>message = None, data = None\<rparr>)"
          "''read_file''" sample_params "\<lparr>message = None, data = None\<rparr>" "Suc 0"]
  by (simp add: sample_handler_def returning_def)

subsection \<open>Denying a tool\<close>

text \<open>
  C5. For every tool name, \<open>handle_tool_denial\<close> leaves the handler as it was but for
  the conversation, which is the old one followed by exactly one message, of role
  \<open>user\<close> and content \<open>Tool execution denied: \<close> followed by the name. The backend, the
  tool manager and the world are the same after as before: tool handlers act on the
  world only, so none has run.
\<close>

theorem handle_tool_denial_appends_notice:
  "handle_tool_denial self (Some name) =
     self\<lparr>conversations := conversations self @
       [\<lparr>msg_role = ''user'', msg_content = ''Tool execution denied: '' @ name\<rparr>]\<rparr>"
  by (simp add: handle_tool_denial_def add_message_def)

text \<open>
  C10. Given \<open>None\<close> for the tool name, \<open>handle_tool_denial\<close> does not fail: it appends
  the \<open>user\<close> message \<open>Tool execution denied: None\<close> and changes nothing else.
\<close>

theorem handle_tool_denial_None:
  "handle_tool_denial self None =
     self\<lparr>conversations := conversations self @
       [\<lparr>msg_role = ''user'', msg_content = ''Tool execution denied: None''\<rparr>]\<rparr>"
  by (simp add: handle_tool_denial_def add_message_def)

subsection \<open>Failures of a tool\<close>

lemma registry_execute_tool_returns:
  "\<exists>result w'. registry_execute_tool describe reg name ps w = (Inr result, w')"
  by (simp add: registry_execute_tool_def split: sum.split prod.split)

lemma registry_execute_tool_failure:
  "dispatch_failure reg name ps w = Some e \<Longrightarrow>
   fst (registry_execute_tool describe reg name ps w) = Inr (error_result (describe e))"
  by (auto simp: dispatch_failure_def registry_execute_tool_def split: sum.splits prod.splits)

text \<open>
  C6. Let the handler's tool manager execute tools as the registry of the spec does.
  Then for every tool name and parameter mapping \<open>execute_tool\<close> returns a value and
  raises nothing; and when the dispatch fails, the name being unknown or the handler
  raising, with an error whose description is not the empty text, that description is
  the value returned and is appended to the conversation as one \<open>user\<close> message.
\<close>

theorem execute_tool_recovers:
  assumes m: "manager_execute_tool (tool_manager self) = registry_execute_tool describe reg"
  shows "(\<exists>returned self'. execute_tool self tool ps = (Inr returned, self')) \<and>
   (\<forall>e. dispatch_failure reg tool ps (world self) = Some e \<and> describe e \<noteq> [] \<longrightarrow>
      fst (execute_tool self tool ps) = Inr (Some (describe e)) \<and>
      conversations (snd (execute_tool self tool ps)) =
        conversations self @ [\<lparr>msg_role = ''user'', msg_content = describe e\<rparr>])"
proof -
  obtain result w' where r: "registry_execute_tool describe reg tool ps (world self) = (Inr result, w')"
    using registry_execute_tool_returns [of describe reg tool ps "world self"] by blast
  have returns: "\<exists>returned self'. execute_tool self tool ps = (Inr returned, self')"
    using m r by (simp add: execute_tool_def Let_def)
  have surfaced: "fst (execute_tool self tool ps) = Inr (Some (describe e)) \<and>
      conversations (snd (execute_tool self tool ps)) =
        conversations self @ [\<lparr>msg_role = ''user'', msg_content = describe e\<rparr>]"
    if f: "dispatch_failure reg tool ps (world self) = Some e \<and> describe e \<noteq> []" for e
  proof -
    have "result = error_result (describe e)"
      using registry_execute_tool_failure [of reg tool ps "world self" e describe] r f by simp
    then show ?thesis
      using m r f by (simp add: execute_tool_def Let_def error_result_def add_message_def)
  qed
  show ?thesis using returns surfaced by blast
qed

text \<open>On the sample registry: a name that is not registered, and a handler that raises.\<close>

theorem execute_tool_recovers_witness:
  "fst (execute_tool (sample_handler (registry_execute_tool sample_describe sample_registry))
          ''rm_rf'' no_params) = Inr (Some ''Unknown tool: rm_rf'') \<and>
   conversations (snd (execute_tool (sample_handler (registry_execute_tool sample_describe sample_registry))
          ''rm_rf'' no_params)) = [\<lparr>msg_role = ''user'', msg_content = ''Unknown tool: rm_rf''\<rparr>] \<and>
   fst (execute_tool (sample_handler (registry_execute_tool sample_describe sample_registry))
          ''write_file'' no_params) = Inr (Some ''Tool failed: disk full'') \<and>
   conversations (snd (execute_tool (sample_handler (registry_execute_tool sample_describe sample_registry))
          ''write_file'' no_params)) = [\<lparr>msg_role = ''user'', msg_content = ''Tool failed: disk full''\<rparr>]"
proof -
  let ?h = "sample_handler (registry_execute_tool sample_describe sample_registry)"
  have m: "manager_execute_tool (tool_manager ?h) = registry_execute_tool sample_describe sample_registry"
    by (simp add: sample_handler_def)
  have c: "conversations ?h = []" "world ?h = 0"
    by (simp_all add: sample_handler_def)
  have f1: "dispatch_failure sample_registry ''rm_rf'' no_params (world ?h) = Some (UnknownToolError ''rm_rf'')"
    by (simp add: dispatch_failure_def resolve_def sample_registry_def)
  have f2: "dispatch_failure sample_registry ''write_file'' no_params (world ?h) =
      Some (ToolExecutionError ''disk full'')"
    by (simp add: dispatch_failure_def resolve_def sample_registry_def)
  have d: "sample_describe (UnknownToolError ''rm_rf'') = ''Unknown tool: rm_rf''"
    "sample_describe (ToolExecutionError ''disk full'') = ''Tool failed: disk full''"
    by (simp_all add: sample_describe_def)
  show ?thesis
    using execute_tool_recovers [OF m, of "''rm_rf''" no_params]
      execute_tool_recovers [OF m, of "''write_file''" no_params] f1 f2 c d
    by simp
qed

subsection \<open>The conversation only grows\<close>

lemma get_context_foldl_add_message:
  "get_context (foldl (\<lambda>h m. add_message (msg_role m) (msg_content m) h) h ms) = get_context h @ ms"
  by (induction ms arbitrary: h) (simp_all add: get_context_def add_message_def)

text \<open>
  C7. After each of \<open>process_response\<close>, \<open>execute_tool\<close> and \<open>handle_tool_denial\<close> the
  conversation is the conversation before followed by some messages: nothing is
  removed, reordered or changed. Appending any sequence of messages to an empty
  conversation gives a context that is that very sequence, and the context that
  \<open>get_next_response\<close> sends to the backend is the conversation as it stands.
\<close>

theorem conversation_append_only:
  "(\<exists>ms. conversations (snd (process_response self response)) = conversations self @ ms) \<and>
   (\<exists>ms. conversations (snd (execute_tool self tool ps)) = conversations self @ ms) \<and>
   (\<exists>ms. conversations (handle_tool_denial self denied) = conversations self @ ms) \<and>
   get_context (foldl (\<lambda>h m. add_message (msg_role m) (msg_content m) h) [] appended) = appended \<and>
   get_next_response self = chat (api_handler self) (conversations self)"
proof (intro conjI)
  show "\<exists>ms. conversations (snd (process_response self response)) = conversations self @ ms"
    by (simp add: process_response_def add_message_def Let_def split: sum.split prod.split)
  show "\<exists>ms. conversations (snd (execute_tool self tool ps)) = conversations self @ ms"
    by (simp add: execute_tool_def add_message_def Let_def split: sum.split prod.split)
  show "\<exists>ms. conversations (handle_tool_denial self denied) = conversations self @ ms"
    by (simp add: handle_tool_denial_def add_message_def)
  show "get_context (foldl (\<lambda>h m. add_message (msg_role m) (msg_content m) h) [] appended) = appended"
    using get_context_foldl_add_message [of "[]" appended] by (simp add: get_context_def)
  show "get_next_response self = chat (api_handler self) (conversations self)"
    by (simp add: get_next_response_def get_context_def)
qed

end
